theory Spec2Isabelle
  imports Main "HOL-Library.Word" "HOL-Library.Sublist"
begin

section \<open>Type identifiers\<close>

text \<open>
  \<^verbatim>\<open>class TypeIdentifier final : public at::IdWrapper<TypeIdentifier, uint16_t>\<close>:
  a type identifier wraps one unsigned 16-bit integer, read back by \<open>underlyingId()\<close>.
  The private constructor \<^verbatim>\<open>TypeIdentifier(uint16_t id)\<close> is the datatype constructor.
\<close>

datatype TypeIdentifier = TypeIdentifier (underlyingId: "16 word")

text \<open>\<^verbatim>\<open>static constexpr TypeIdentifier uninitialized() { return TypeIdentifier(11); }\<close>\<close>

definition uninitialized :: TypeIdentifier where
  "uninitialized = TypeIdentifier 11"

text \<open>
  \<^verbatim>\<open>inline bool operator<(TypeIdentifier lhs, TypeIdentifier rhs)
    { return lhs.underlyingId() < rhs.underlyingId(); }\<close>
\<close>

definition TypeIdentifier_less :: "TypeIdentifier \<Rightarrow> TypeIdentifier \<Rightarrow> bool" where
  "TypeIdentifier_less lhs rhs = (underlyingId lhs < underlyingId rhs)"

section \<open>The types of the registry\<close>

text \<open>
  The C++ types the header registers with \<^verbatim>\<open>CAFFE_PREALLOCATED_KNOWN_TYPE\<close>, one
  constructor each in the order of the source, and \<open>Known nm\<close> for a type that some
  translation unit registers with \<^verbatim>\<open>CAFFE_KNOWN_TYPE(nm)\<close>.
\<close>

datatype cpp_type =
    T_uint8 | T_int8 | T_int16 | T_int | T_int64 | T_Half | T_float | T_double
  | T_ComplexHalf | T_complex_float | T_complex_double
  | T_Tensor | T_string | T_bool | T_uint16 | T_char
  | T_unique_ptr_mutex | T_unique_ptr_atomic_bool
  | T_vector_int32 | T_vector_int64 | T_vector_unsigned_long
  | T_bool_ptr | T_char_ptr | T_int_ptr
  | T_long | T_vector_long
  | T_CaffeHighestPreallocatedTypeId
  | Known string

text \<open>
  The identifier argument of each \<^verbatim>\<open>CAFFE_PREALLOCATED_KNOWN_TYPE(PreallocatedId, T)\<close>
  line. The flag is \<^verbatim>\<open>CAFFE2_UNIQUE_LONG_TYPEMETA\<close>: the lines for \<^verbatim>\<open>long\<close> and
  \<^verbatim>\<open>std::vector<long>\<close> are compiled only when it is defined. No line uses 11.
\<close>

fun PreallocatedId :: "bool \<Rightarrow> cpp_type \<Rightarrow> 16 word option" where
  "PreallocatedId unique_long T_uint8 = Some 0"
| "PreallocatedId unique_long T_int8 = Some 1"
| "PreallocatedId unique_long T_int16 = Some 2"
| "PreallocatedId unique_long T_int = Some 3"
| "PreallocatedId unique_long T_int64 = Some 4"
| "PreallocatedId unique_long T_Half = Some 5"
| "PreallocatedId unique_long T_float = Some 6"
| "PreallocatedId unique_long T_double = Some 7"
| "PreallocatedId unique_long T_ComplexHalf = Some 8"
| "PreallocatedId unique_long T_complex_float = Some 9"
| "PreallocatedId unique_long T_complex_double = Some 10"
| "PreallocatedId unique_long T_Tensor = Some 12"
| "PreallocatedId unique_long T_string = Some 13"
| "PreallocatedId unique_long T_bool = Some 14"
| "PreallocatedId unique_long T_uint16 = Some 15"
| "PreallocatedId unique_long T_char = Some 16"
| "PreallocatedId unique_long T_unique_ptr_mutex = Some 17"
| "PreallocatedId unique_long T_unique_ptr_atomic_bool = Some 18"
| "PreallocatedId unique_long T_vector_int32 = Some 19"
| "PreallocatedId unique_long T_vector_int64 = Some 20"
| "PreallocatedId unique_long T_vector_unsigned_long = Some 21"
| "PreallocatedId unique_long T_bool_ptr = Some 22"
| "PreallocatedId unique_long T_char_ptr = Some 23"
| "PreallocatedId unique_long T_int_ptr = Some 24"
| "PreallocatedId unique_long T_long = (if unique_long then Some 25 else None)"
| "PreallocatedId unique_long T_vector_long = (if unique_long then Some 26 else None)"
| "PreallocatedId unique_long T_CaffeHighestPreallocatedTypeId = Some 27"
| "PreallocatedId unique_long (Known nm) = None"

text \<open>
  \<^verbatim>\<open>_TypeName<T>()\<close>: both registration macros define it as \<^verbatim>\<open>return #T;\<close>, the
  spelling of the macro argument.
\<close>

fun TypeName :: "cpp_type \<Rightarrow> string" where
  "TypeName T_uint8 = ''uint8_t''"
| "TypeName T_int8 = ''int8_t''"
| "TypeName T_int16 = ''int16_t''"
| "TypeName T_int = ''int''"
| "TypeName T_int64 = ''int64_t''"
| "TypeName T_Half = ''at::Half''"
| "TypeName T_float = ''float''"
| "TypeName T_double = ''double''"
| "TypeName T_ComplexHalf = ''at::ComplexHalf''"
| "TypeName T_complex_float = ''std::complex<float>''"
| "TypeName T_complex_double = ''std::complex<double>''"
| "TypeName T_Tensor = ''Tensor''"
| "TypeName T_string = ''std::string''"
| "TypeName T_bool = ''bool''"
| "TypeName T_uint16 = ''uint16_t''"
| "TypeName T_char = ''char''"
| "TypeName T_unique_ptr_mutex = ''std::unique_ptr<std::mutex>''"
| "TypeName T_unique_ptr_atomic_bool = ''std::unique_ptr<std::atomic<bool>>''"
| "TypeName T_vector_int32 = ''std::vector<int32_t>''"
| "TypeName T_vector_int64 = ''std::vector<int64_t>''"
| "TypeName T_vector_unsigned_long = ''std::vector<unsigned long>''"
| "TypeName T_bool_ptr = ''bool*''"
| "TypeName T_char_ptr = ''char*''"
| "TypeName T_int_ptr = ''int*''"
| "TypeName T_long = ''long''"
| "TypeName T_vector_long = ''std::vector<long>''"
| "TypeName T_CaffeHighestPreallocatedTypeId = ''_CaffeHighestPreallocatedTypeId''"
| "TypeName (Known nm) = nm"

text \<open>
  A type is registered when one of the two macros has been invoked for it:
  \<^verbatim>\<open>TypeIdentifier::Get<T>\<close> and \<^verbatim>\<open>_TypeName<T>\<close> are declared for every \<open>T\<close> and
  defined only by those macros, so a program that asks for another type does not link.
\<close>

fun registered :: "bool \<Rightarrow> cpp_type \<Rightarrow> bool" where
  "registered unique_long (Known nm) = True"
| "registered unique_long T = (PreallocatedId unique_long T \<noteq> None)"

section \<open>Failures\<close>

text \<open>
  \<open>RuntimeTypeLogicError msg\<close> is what \<^verbatim>\<open>_ThrowRuntimeTypeLogicError(msg)\<close> raises,
  \<open>TypeIdsExhausted\<close> is the failure of the identifier allocator, and
  \<open>NoSpecialization\<close> stands for asking the identifier of a type that no macro
  registered.
\<close>

datatype error = RuntimeTypeLogicError string | TypeIdsExhausted | NoSpecialization

section \<open>The identifier allocator\<close>

text \<open>
  The run-time state of the allocator: the global counter behind
  \<^verbatim>\<open>TypeIdentifier::createTypeId()\<close> and, for each type registered with
  \<^verbatim>\<open>CAFFE_KNOWN_TYPE\<close>, the function-local \<^verbatim>\<open>static const TypeIdentifier type_id\<close>
  of its \<^verbatim>\<open>Get<T>\<close> (\<open>None\<close> until the first call has initialised it).
\<close>

record id_state =
  counter :: nat
  type_id :: "cpp_type \<rightharpoonup> TypeIdentifier"

text \<open>
  Modelled from the spec: \<^verbatim>\<open>TypeIdentifier::createTypeId()\<close> is declared in the header
  and defined in a source file that is not part of it. The specification describes a
  global counter, fetched and incremented, seeded one past the largest reserved
  constant, that fails fast instead of wrapping when the identifier width is exceeded.
\<close>

definition initial_counter :: nat where
  "initial_counter = 28"

definition createTypeId :: "nat \<Rightarrow> error + (TypeIdentifier \<times> nat)" where
  "createTypeId c =
     (if c < 2 ^ 16 then Inr (TypeIdentifier (of_nat c), Suc c) else Inl TypeIdsExhausted)"

definition initial_ids :: id_state where
  "initial_ids = \<lparr>counter = initial_counter, type_id = Map.empty\<rparr>"

text \<open>
  \<^verbatim>\<open>TypeIdentifier::Get<T>()\<close>. For a preallocated type the macro defines
  \<^verbatim>\<open>return TypeIdentifier(PreallocatedId);\<close>. For a \<^verbatim>\<open>CAFFE_KNOWN_TYPE\<close> type it defines
  \<^verbatim>\<open>static const TypeIdentifier type_id = TypeIdentifier::createTypeId(); return type_id;\<close>:
  the first call runs the initialiser, later calls read the variable; an initialiser
  that throws leaves the variable uninitialised.
\<close>

definition Get :: "bool \<Rightarrow> cpp_type \<Rightarrow> id_state \<Rightarrow> error + (TypeIdentifier \<times> id_state)" where
  "Get unique_long T s =
     (case PreallocatedId unique_long T of
        Some k \<Rightarrow> Inr (TypeIdentifier k, s)
      | None \<Rightarrow>
          (case T of
             Known nm \<Rightarrow>
               (case type_id s T of
                  Some i \<Rightarrow> Inr (i, s)
                | None \<Rightarrow>
                    (case createTypeId (counter s) of
                       Inl e \<Rightarrow> Inl e
                     | Inr (i, c) \<Rightarrow>
                         Inr (i, s\<lparr>counter := c, type_id := (type_id s)(T \<mapsto> i)\<rparr>)))
           | _ \<Rightarrow> Inl NoSpecialization))"

section \<open>Handles\<close>

text \<open>
  A \<^verbatim>\<open>const detail::TypeMetaData*\<close> points either to the static member
  \<^verbatim>\<open>TypeMeta::uninitialized_\<close> or to the static member
  \<^verbatim>\<open>detail::TypeMetaDataRegistry<T>::data\<close> of one type. An address is named by the
  object that lives there: distinct static objects have distinct addresses.
\<close>

datatype TypeMetaData_ptr = addr_uninitialized | addr_Registry_data cpp_type

text \<open>\<^verbatim>\<open>class TypeMeta\<close> has the one member \<^verbatim>\<open>const detail::TypeMetaData* data_\<close>.\<close>

datatype TypeMeta = TypeMeta (data_ptr: TypeMetaData_ptr)

text \<open>\<^verbatim>\<open>constexpr TypeMeta() noexcept : data_(&uninitialized_) {}\<close>\<close>

definition TypeMeta_default :: TypeMeta where
  "TypeMeta_default = TypeMeta addr_uninitialized"

text \<open>\<^verbatim>\<open>Make<T>() { return TypeMeta(&detail::TypeMetaDataRegistry<T>::data); }\<close>\<close>

definition Make :: "cpp_type \<Rightarrow> TypeMeta" where
  "Make T = TypeMeta (addr_Registry_data T)"

text \<open>\<^verbatim>\<open>operator==\<close> is \<^verbatim>\<open>lhs.data_ == rhs.data_\<close>, \<^verbatim>\<open>operator!=\<close> its negation.\<close>

definition TypeMeta_eq :: "TypeMeta \<Rightarrow> TypeMeta \<Rightarrow> bool" where
  "TypeMeta_eq lhs rhs = (data_ptr lhs = data_ptr rhs)"

definition TypeMeta_neq :: "TypeMeta \<Rightarrow> TypeMeta \<Rightarrow> bool" where
  "TypeMeta_neq lhs rhs = (\<not> TypeMeta_eq lhs rhs)"

text \<open>\<^verbatim>\<open>Match<T>() { return (data_ == Make<T>().data_); }\<close>\<close>

definition Match :: "TypeMeta \<Rightarrow> cpp_type \<Rightarrow> bool" where
  "Match h T = (data_ptr h = data_ptr (Make T))"

text \<open>
  The relational operators a C++ expression can apply to two handles, and the function
  each one resolves to. The header declares \<^verbatim>\<open>operator==\<close> and \<^verbatim>\<open>operator!=\<close> for
  \<^verbatim>\<open>TypeMeta\<close> and no other relational operator: \<^verbatim>\<open>operator<\<close> is declared for
  \<^verbatim>\<open>TypeIdentifier\<close> only, and \<^verbatim>\<open>TypeMeta\<close> converts to no other type, so an expression
  that applies \<^verbatim>\<open><\<close>, \<^verbatim>\<open>>\<close>, \<^verbatim>\<open><=\<close> or \<^verbatim>\<open>>=\<close> to two handles does not compile
  (\<open>None\<close>).
\<close>

datatype relational_operator =
  op_equal | op_not_equal | op_less | op_greater | op_less_equal | op_greater_equal

fun TypeMeta_operator :: "relational_operator \<Rightarrow> (TypeMeta \<Rightarrow> TypeMeta \<Rightarrow> bool) option" where
  "TypeMeta_operator op_equal = Some TypeMeta_eq"
| "TypeMeta_operator op_not_equal = Some TypeMeta_neq"
| "TypeMeta_operator op_less = None"
| "TypeMeta_operator op_greater = None"
| "TypeMeta_operator op_less_equal = None"
| "TypeMeta_operator op_greater_equal = None"

section \<open>Typed storage\<close>

text \<open>
  The storage the three operations work on, seen as the array of elements they index
  (\<^verbatim>\<open>typed_ptr + i\<close>, \<^verbatim>\<open>typed_dst[i]\<close>): a pointer is the index of an element slot.
  A slot holds no object, an object whose value is indeterminate, or an object with a
  value.
\<close>

datatype 'v slot = NoObject | Indeterminate | Value 'v

type_synonym 'v memory = "nat \<Rightarrow> 'v slot"

text \<open>
  What the compiler knows of a type and the header asks through \<^verbatim>\<open>sizeof\<close>,
  \<^verbatim>\<open>std::is_fundamental\<close>, \<^verbatim>\<open>std::is_pointer\<close>, \<^verbatim>\<open>std::is_default_constructible\<close>,
  \<^verbatim>\<open>std::is_copy_assignable\<close> and \<^verbatim>\<open>at::demangle_type<T>()\<close>. None of these is
  defined in the header, so they are parameters of the model. A default constructor
  is either trivial (it performs no initialisation) or runs code that gives the object
  a value; \<open>default_ctor = None\<close> is a type that is not default-constructible.
  \<open>zero_value\<close> is the zero-initialised value of the type.
\<close>

datatype 'v default_ctor = TrivialCtor | UserCtor 'v

record 'v type_traits =
  sizeof :: nat
  is_fundamental :: bool
  is_pointer :: bool
  default_ctor :: "'v default_ctor option"
  is_copy_assignable :: bool
  demangle_type :: string
  zero_value :: 'v

definition is_default_constructible :: "'v type_traits \<Rightarrow> bool" where
  "is_default_constructible tr = (default_ctor tr \<noteq> None)"

text \<open>
  The expression \<^verbatim>\<open>new (p) T\<close> default-initialises the object it creates: a
  trivial default constructor leaves the value indeterminate, any other default
  constructor is run.
\<close>

fun default_initialize :: "'v default_ctor \<Rightarrow> 'v slot" where
  "default_initialize TrivialCtor = Indeterminate"
| "default_initialize (UserCtor v) = Value v"

text \<open>
  Value-initialisation, the wording of the specification (\<^verbatim>\<open>new (p) T()\<close> in C++):
  an object whose default constructor is not user-provided is zero-initialised, a
  user-provided default constructor is run. This definition follows the
  specification's words and is compared with what \<open>Ctor\<close> does.
\<close>

fun value_initialize :: "'v \<Rightarrow> 'v default_ctor \<Rightarrow> 'v slot" where
  "value_initialize z TrivialCtor = Value z"
| "value_initialize z (UserCtor v) = Value v"

section \<open>The operations of a table\<close>

text \<open>
  \<^verbatim>\<open>using PlacementNew = void(void*, size_t);\<close>
  \<^verbatim>\<open>using TypedCopy = void(const void*, void*, size_t);\<close>
  \<^verbatim>\<open>using TypedDestructor = void(void*, size_t);\<close>
  A function takes the storage and its arguments and either raises or returns the
  storage it leaves behind. A function pointer is \<open>None\<close> when null.
\<close>

type_synonym 'v PlacementNew = "'v memory \<Rightarrow> nat \<Rightarrow> nat \<Rightarrow> error + 'v memory"
type_synonym 'v TypedCopy = "'v memory \<Rightarrow> nat \<Rightarrow> nat \<Rightarrow> nat \<Rightarrow> error + 'v memory"
type_synonym 'v TypedDestructor = "'v memory \<Rightarrow> nat \<Rightarrow> nat \<Rightarrow> error + 'v memory"

text \<open>
  Modelled from the spec: \<^verbatim>\<open>_ThrowRuntimeTypeLogicError\<close> is declared in the header
  (``right now just throws exception'') and defined elsewhere. It raises the
  illegal-operation failure with the message it is given.
\<close>

definition ThrowRuntimeTypeLogicError :: "string \<Rightarrow> error + 'a" where
  "ThrowRuntimeTypeLogicError msg = Inl (RuntimeTypeLogicError msg)"

text \<open>
  \<^verbatim>\<open>_Ctor<T>\<close>: \<^verbatim>\<open>for (size_t i = 0; i < n; ++i) { new (typed_ptr + i) T; }\<close>
\<close>

function Ctor_loop :: "'v default_ctor \<Rightarrow> nat \<Rightarrow> nat \<Rightarrow> nat \<Rightarrow> 'v memory \<Rightarrow> 'v memory" where
  "Ctor_loop dc typed_ptr n i m =
     (if i < n
      then Ctor_loop dc typed_ptr n (Suc i) (m(typed_ptr + i := default_initialize dc))
      else m)"
  by pat_completeness auto
termination
  by (relation "measure (\<lambda>(dc, typed_ptr, n, i, m). n - i)") auto

declare Ctor_loop.simps [simp del]

definition Ctor :: "'v default_ctor \<Rightarrow> 'v PlacementNew" where
  "Ctor dc m ptr n = Inr (Ctor_loop dc ptr n 0 m)"

text \<open>
  \<^verbatim>\<open>_CtorNotDefault<T>\<close>: \<^verbatim>\<open>_ThrowRuntimeTypeLogicError("Type " +
  std::string(at::demangle_type<T>()) + " is not default-constructible.");\<close>
\<close>

definition CtorNotDefault :: "'v type_traits \<Rightarrow> 'v PlacementNew" where
  "CtorNotDefault tr m ptr n =
     ThrowRuntimeTypeLogicError (''Type '' @ demangle_type tr @ '' is not default-constructible.'')"

text \<open>
  \<^verbatim>\<open>_PickCtor<T>()\<close>: \<^verbatim>\<open>&_Ctor<T>\<close> when \<^verbatim>\<open>std::is_default_constructible<T>\<close>,
  \<^verbatim>\<open>&_CtorNotDefault<T>\<close> otherwise.
\<close>

definition PickCtor :: "'v type_traits \<Rightarrow> 'v PlacementNew" where
  "PickCtor tr = (case default_ctor tr of Some dc \<Rightarrow> Ctor dc | None \<Rightarrow> CtorNotDefault tr)"

text \<open>
  \<^verbatim>\<open>_Copy<T>\<close>: \<^verbatim>\<open>for (size_t i = 0; i < n; ++i) { typed_dst[i] = typed_src[i]; }\<close>
  The assignment gives the destination element the content of the source element.
\<close>

function Copy_loop :: "nat \<Rightarrow> nat \<Rightarrow> nat \<Rightarrow> nat \<Rightarrow> 'v memory \<Rightarrow> 'v memory" where
  "Copy_loop typed_src typed_dst n i m =
     (if i < n
      then Copy_loop typed_src typed_dst n (Suc i) (m(typed_dst + i := m (typed_src + i)))
      else m)"
  by pat_completeness auto
termination
  by (relation "measure (\<lambda>(typed_src, typed_dst, n, i, m). n - i)") auto

declare Copy_loop.simps [simp del]

definition Copy :: "'v TypedCopy" where
  "Copy m src dst n = Inr (Copy_loop src dst n 0 m)"

text \<open>
  \<^verbatim>\<open>_CopyNotAllowed<T>\<close>: \<^verbatim>\<open>_ThrowRuntimeTypeLogicError("Type " +
  std::string(at::demangle_type<T>()) + " does not allow assignment.");\<close>
\<close>

definition CopyNotAllowed :: "'v type_traits \<Rightarrow> 'v TypedCopy" where
  "CopyNotAllowed tr m src dst n =
     ThrowRuntimeTypeLogicError (''Type '' @ demangle_type tr @ '' does not allow assignment.'')"

text \<open>
  \<^verbatim>\<open>_PickCopy<T>()\<close>: \<^verbatim>\<open>&_Copy<T>\<close> when \<^verbatim>\<open>std::is_copy_assignable<T>\<close>,
  \<^verbatim>\<open>&_CopyNotAllowed<T>\<close> otherwise.
\<close>

definition PickCopy :: "'v type_traits \<Rightarrow> 'v TypedCopy" where
  "PickCopy tr = (if is_copy_assignable tr then Copy else CopyNotAllowed tr)"

text \<open>
  \<^verbatim>\<open>_Dtor<T>\<close>: \<^verbatim>\<open>for (size_t i = 0; i < n; ++i) { typed_ptr[i].~T(); }\<close>
  After the destructor call the slot holds no object.
\<close>

function Dtor_loop :: "nat \<Rightarrow> nat \<Rightarrow> nat \<Rightarrow> 'v memory \<Rightarrow> 'v memory" where
  "Dtor_loop typed_ptr n i m =
     (if i < n then Dtor_loop typed_ptr n (Suc i) (m(typed_ptr + i := NoObject)) else m)"
  by pat_completeness auto
termination
  by (relation "measure (\<lambda>(typed_ptr, n, i, m). n - i)") auto

declare Dtor_loop.simps [simp del]

definition Dtor :: "'v TypedDestructor" where
  "Dtor m ptr n = Inr (Dtor_loop ptr n 0 m)"

section \<open>Operation-table records\<close>

text \<open>
  \<^verbatim>\<open>struct TypeMetaData\<close>, its members in the order of the source (the trailing
  underscore of a member name is written \<open>data_\<close> in front).
\<close>

record 'v TypeMetaData =
  data_itemsize :: nat
  data_ctor :: "'v PlacementNew option"
  data_copy :: "'v TypedCopy option"
  data_dtor :: "'v TypedDestructor option"
  data_id :: TypeIdentifier
  data_name :: string

text \<open>
  \<^verbatim>\<open>TypeMeta::uninitialized_ = TypeMetaData {0, nullptr, nullptr, nullptr,
  TypeIdentifier::uninitialized(), "nullptr (uninitialized)"}\<close>
\<close>

definition uninitialized_data :: "'v TypeMetaData" where
  "uninitialized_data =
     \<lparr>data_itemsize = 0, data_ctor = None, data_copy = None, data_dtor = None,
      data_id = uninitialized, data_name = ''nullptr (uninitialized)''\<rparr>"

text \<open>
  The initialiser of \<^verbatim>\<open>TypeMetaDataRegistry<T>::data\<close>. The specialisation for
  \<^verbatim>\<open>std::is_fundamental<T>::value || std::is_pointer<T>::value\<close> is
  \<^verbatim>\<open>{sizeof(T), nullptr, nullptr, nullptr, TypeIdentifier::Get<T>(), _TypeName<T>()}\<close>,
  the other one
  \<^verbatim>\<open>{sizeof(T), _PickCtor<T>(), _PickCopy<T>(), _Dtor<T>, TypeIdentifier::Get<T>(),
  _TypeName<T>()}\<close>. Only \<^verbatim>\<open>Get<T>()\<close> reads and changes state, and only it can fail.
\<close>

definition TypeMetaDataRegistry_data ::
  "bool \<Rightarrow> 'v type_traits \<Rightarrow> cpp_type \<Rightarrow> id_state \<Rightarrow> error + ('v TypeMetaData \<times> id_state)" where
  "TypeMetaDataRegistry_data unique_long tr T s =
     (case Get unique_long T s of
        Inl e \<Rightarrow> Inl e
      | Inr (i, s') \<Rightarrow>
          Inr (if is_fundamental tr \<or> is_pointer tr
               then \<lparr>data_itemsize = sizeof tr, data_ctor = None, data_copy = None,
                     data_dtor = None, data_id = i, data_name = TypeName T\<rparr>
               else \<lparr>data_itemsize = sizeof tr, data_ctor = Some (PickCtor tr),
                     data_copy = Some (PickCopy tr), data_dtor = Some Dtor,
                     data_id = i, data_name = TypeName T\<rparr>,
               s'))"

text \<open>
  The static objects of a running program: the allocator state and the current content
  of every \<^verbatim>\<open>TypeMetaDataRegistry<T>::data\<close>. \<open>initialize_data\<close> is the dynamic
  initialisation of the one of \<open>T\<close>, given the traits of \<open>T\<close>.
\<close>

record 'v program =
  ids :: id_state
  registry :: "cpp_type \<Rightarrow> 'v TypeMetaData"

definition initialize_data ::
  "bool \<Rightarrow> 'v type_traits \<Rightarrow> cpp_type \<Rightarrow> 'v program \<Rightarrow> error + 'v program" where
  "initialize_data unique_long tr T p =
     (case TypeMetaDataRegistry_data unique_long tr T (ids p) of
        Inl e \<Rightarrow> Inl e
      | Inr (d, s') \<Rightarrow> Inr \<lparr>ids = s', registry = (registry p)(T := d)\<rparr>)"

text \<open>Reading through a \<^verbatim>\<open>const detail::TypeMetaData*\<close>.\<close>

fun deref :: "(cpp_type \<Rightarrow> 'v TypeMetaData) \<Rightarrow> TypeMetaData_ptr \<Rightarrow> 'v TypeMetaData" where
  "deref reg addr_uninitialized = uninitialized_data"
| "deref reg (addr_Registry_data T) = reg T"

text \<open>
  The accessors of \<^verbatim>\<open>TypeMeta\<close>, each \<^verbatim>\<open>return data_->member;\<close>. They are
  \<^verbatim>\<open>constexpr ... noexcept\<close>: total functions that cannot raise.
\<close>

definition TypeMeta_id :: "(cpp_type \<Rightarrow> 'v TypeMetaData) \<Rightarrow> TypeMeta \<Rightarrow> TypeIdentifier" where
  "TypeMeta_id reg h = data_id (deref reg (data_ptr h))"

definition TypeMeta_itemsize :: "(cpp_type \<Rightarrow> 'v TypeMetaData) \<Rightarrow> TypeMeta \<Rightarrow> nat" where
  "TypeMeta_itemsize reg h = data_itemsize (deref reg (data_ptr h))"

definition TypeMeta_ctor :: "(cpp_type \<Rightarrow> 'v TypeMetaData) \<Rightarrow> TypeMeta \<Rightarrow> 'v PlacementNew option" where
  "TypeMeta_ctor reg h = data_ctor (deref reg (data_ptr h))"

definition TypeMeta_copy :: "(cpp_type \<Rightarrow> 'v TypeMetaData) \<Rightarrow> TypeMeta \<Rightarrow> 'v TypedCopy option" where
  "TypeMeta_copy reg h = data_copy (deref reg (data_ptr h))"

definition TypeMeta_dtor :: "(cpp_type \<Rightarrow> 'v TypeMetaData) \<Rightarrow> TypeMeta \<Rightarrow> 'v TypedDestructor option" where
  "TypeMeta_dtor reg h = data_dtor (deref reg (data_ptr h))"

definition TypeMeta_name :: "(cpp_type \<Rightarrow> 'v TypeMetaData) \<Rightarrow> TypeMeta \<Rightarrow> string" where
  "TypeMeta_name reg h = data_name (deref reg (data_ptr h))"

section \<open>Runs of the allocator\<close>

text \<open>
  The allocator states a program can be in: the initial one, and the one after any
  successful call of \<^verbatim>\<open>TypeIdentifier::Get<T>()\<close>, for any type, in a reachable state.
\<close>

inductive reachable :: "bool \<Rightarrow> id_state \<Rightarrow> bool" for unique_long :: bool where
  reachable_initial: "reachable unique_long initial_ids"
| reachable_Get:
    "reachable unique_long s \<Longrightarrow> Get unique_long T s = Inr (i, s') \<Longrightarrow> reachable unique_long s'"

section \<open>Example inputs\<close>

text \<open>
  Concrete inputs for the closed theorems below, with the traits an LP64 platform
  gives them and element values written as the list of their members:
  \<^verbatim>\<open>int\<close>; \<^verbatim>\<open>std::unique_ptr<std::mutex>\<close>, whose default constructor makes a null
  pointer and whose copy assignment is deleted; and \<^verbatim>\<open>struct Point { int x; int y; };\<close>
  registered with \<^verbatim>\<open>CAFFE_KNOWN_TYPE(Point)\<close>, whose default constructor is trivial.
  \<open>raw_storage\<close> is storage in which no object lives.
\<close>

definition int_traits :: "int list type_traits" where
  "int_traits =
     \<lparr>sizeof = 4, is_fundamental = True, is_pointer = False,
      default_ctor = Some TrivialCtor, is_copy_assignable = True,
      demangle_type = ''int'', zero_value = [0]\<rparr>"

definition unique_ptr_mutex_traits :: "int list type_traits" where
  "unique_ptr_mutex_traits =
     \<lparr>sizeof = 8, is_fundamental = False, is_pointer = False,
      default_ctor = Some (UserCtor [0]), is_copy_assignable = False,
      demangle_type = ''std::unique_ptr<std::mutex, std::default_delete<std::mutex> >'',
      zero_value = [0]\<rparr>"

definition Point_traits :: "int list type_traits" where
  "Point_traits =
     \<lparr>sizeof = 8, is_fundamental = False, is_pointer = False,
      default_ctor = Some TrivialCtor, is_copy_assignable = True,
      demangle_type = ''Point'', zero_value = [0, 0]\<rparr>"

definition raw_storage :: "'v memory" where
  "raw_storage = (\<lambda>a. NoObject)"

text \<open>
  A program before any dynamic initialisation: the allocator in its initial state and
  every static record zero-filled (the null name pointer is written as the empty
  string).
\<close>

definition program_start :: "int list program" where
  "program_start =
     \<lparr>ids = initial_ids,
      registry = (\<lambda>T. \<lparr>data_itemsize = 0, data_ctor = None, data_copy = None,
                         data_dtor = None, data_id = TypeIdentifier 0, data_name = []\<rparr>)\<rparr>"

text \<open>
  The allocator state after the first calls of \<^verbatim>\<open>Get<A>()\<close> and then \<^verbatim>\<open>Get<B>()\<close> for
  two types registered with \<^verbatim>\<open>CAFFE_KNOWN_TYPE(A)\<close> and \<^verbatim>\<open>CAFFE_KNOWN_TYPE(B)\<close>.
\<close>

definition ids_after_A_B :: id_state where
  "ids_after_A_B =
     \<lparr>counter = 30,
      type_id = [Known ''A'' \<mapsto> TypeIdentifier 28, Known ''B'' \<mapsto> TypeIdentifier 29]\<rparr>"

section \<open>Results\<close>

subsection \<open>The identifier function\<close>

lemma Get_preallocated:
  "PreallocatedId unique_long T = Some k \<Longrightarrow> Get unique_long T s = Inr (TypeIdentifier k, s)"
  by (simp add: Get_def)

lemma Get_Known:
  "Get unique_long (Known nm) s =
     (case type_id s (Known nm) of
        Some i \<Rightarrow> Inr (i, s)
      | None \<Rightarrow>
          (case createTypeId (counter s) of
             Inl e \<Rightarrow> Inl e
           | Inr (i, c) \<Rightarrow>
               Inr (i, s\<lparr>counter := c, type_id := (type_id s)(Known nm \<mapsto> i)\<rparr>)))"
  by (simp add: Get_def)

lemma Get_unregistered:
  "\<not> registered unique_long T \<Longrightarrow> Get unique_long T s = Inl NoSpecialization"
  by (cases T) (simp_all add: Get_def)

lemma Get_cases:
  obtains (preallocated) k where "PreallocatedId unique_long T = Some k"
  | (known) nm where "T = Known nm"
  | (unregistered) "\<not> registered unique_long T"
  by (cases T) (auto split: if_splits)

lemma Get_not_logic_error: "Get unique_long T s \<noteq> Inl (RuntimeTypeLogicError msg)"
proof (cases unique_long T rule: Get_cases)
  case (preallocated k)
  then show ?thesis by (simp add: Get_preallocated)
next
  case (known nm)
  then show ?thesis
    by (simp add: Get_Known createTypeId_def split: option.splits)
next
  case unregistered
  then show ?thesis by (simp add: Get_unregistered)
qed

lemma Get_returns:
  assumes "registered unique_long T" and "counter s < 2 ^ 16"
  shows "\<exists>i s'. Get unique_long T s = Inr (i, s')"
proof (cases unique_long T rule: Get_cases)
  case (preallocated k)
  then show ?thesis by (simp add: Get_preallocated)
next
  case (known nm)
  with assms(2) show ?thesis
    by (simp add: Get_Known createTypeId_def split: option.splits)
next
  case unregistered
  with assms(1) show ?thesis by simp
qed

lemma Get_step:
  assumes "Get unique_long T s = Inr (i, s')"
  shows "(s' = s \<and> (PreallocatedId unique_long T = Some (underlyingId i) \<or> type_id s T = Some i))
    \<or> (PreallocatedId unique_long T = None \<and> type_id s T = None \<and> counter s < 2 ^ 16
        \<and> i = TypeIdentifier (of_nat (counter s))
        \<and> s' = s\<lparr>counter := Suc (counter s), type_id := (type_id s)(T \<mapsto> i)\<rparr>)"
proof (cases unique_long T rule: Get_cases)
  case (preallocated k)
  with assms show ?thesis by (auto simp: Get_preallocated)
next
  case (known nm)
  with assms show ?thesis
    by (auto simp: Get_Known createTypeId_def split: option.splits if_splits)
next
  case unregistered
  with assms show ?thesis by (simp add: Get_unregistered)
qed

subsection \<open>Reserved identifiers\<close>

lemma PreallocatedId_le_27: "PreallocatedId unique_long T = Some k \<Longrightarrow> k \<le> 27"
  by (cases T) (auto split: if_splits)

text \<open>
  Claim C2. Every reserved built-in type yields its fixed identifier, whatever the state
  of the allocator (so whatever was asked before) and without changing it:
  \<^verbatim>\<open>uint8_t\<close> yields 0, the identifiers 0 to 10 go in order to \<^verbatim>\<open>uint8_t\<close>,
  \<^verbatim>\<open>int8_t\<close>, \<^verbatim>\<open>int16_t\<close>, \<^verbatim>\<open>int\<close>, \<^verbatim>\<open>int64_t\<close>, \<^verbatim>\<open>at::Half\<close>, \<^verbatim>\<open>float\<close>,
  \<^verbatim>\<open>double\<close>, \<^verbatim>\<open>at::ComplexHalf\<close>, \<^verbatim>\<open>std::complex<float>\<close>,
  \<^verbatim>\<open>std::complex<double>\<close>, and the marker type yields 27, which no reserved
  identifier exceeds.
\<close>

theorem reserved_ids_fixed:
  "Get unique_long T_uint8 s = Inr (TypeIdentifier 0, s)
   \<and> Get unique_long T_int8 s = Inr (TypeIdentifier 1, s)
   \<and> Get unique_long T_int16 s = Inr (TypeIdentifier 2, s)
   \<and> Get unique_long T_int s = Inr (TypeIdentifier 3, s)
   \<and> Get unique_long T_int64 s = Inr (TypeIdentifier 4, s)
   \<and> Get unique_long T_Half s = Inr (TypeIdentifier 5, s)
   \<and> Get unique_long T_float s = Inr (TypeIdentifier 6, s)
   \<and> Get unique_long T_double s = Inr (TypeIdentifier 7, s)
   \<and> Get unique_long T_ComplexHalf s = Inr (TypeIdentifier 8, s)
   \<and> Get unique_long T_complex_float s = Inr (TypeIdentifier 9, s)
   \<and> Get unique_long T_complex_double s = Inr (TypeIdentifier 10, s)
   \<and> Get unique_long T_CaffeHighestPreallocatedTypeId s = Inr (TypeIdentifier 27, s)
   \<and> (\<forall>T k. PreallocatedId unique_long T = Some k \<longrightarrow>
         Get unique_long T s = Inr (TypeIdentifier k, s) \<and> unat k \<le> 27)"
proof -
  have "unat k \<le> 27" if "PreallocatedId unique_long T = Some k" for T k
  proof -
    from that have "k \<le> 27" by (rule PreallocatedId_le_27)
    then have "unat k \<le> unat (27 :: 16 word)" by (simp add: word_le_nat_alt)
    then show ?thesis by simp
  qed
  then show ?thesis by (simp add: Get_def)
qed

theorem reserved_ids_fixed_witness:
  "PreallocatedId True T_vector_long = Some 26
   \<and> Get True T_vector_long initial_ids = Inr (TypeIdentifier 26, initial_ids)
   \<and> unat (26 :: 16 word) \<le> 27"
  using reserved_ids_fixed [of True initial_ids] by simp

subsection \<open>The width of identifiers\<close>

lemma card_TypeIdentifier: "card (UNIV :: TypeIdentifier set) = 65536"
proof -
  have "(UNIV :: TypeIdentifier set) = range TypeIdentifier"
  proof (rule set_eqI)
    fix x :: TypeIdentifier
    show "x \<in> UNIV \<longleftrightarrow> x \<in> range TypeIdentifier"
      by (cases x) simp
  qed
  moreover have "inj TypeIdentifier"
    by (simp add: inj_on_def)
  ultimately have "card (UNIV :: TypeIdentifier set) = card (UNIV :: 16 word set)"
    using card_image [of TypeIdentifier UNIV] by simp
  then show ?thesis
    by (simp add: card_word)
qed

text \<open>
  Claim C10. Every type identifier, whether a reserved constant, the uninitialized
  sentinel 11 or a dynamically allocated one, is a value of \<open>TypeIdentifier\<close>, which wraps
  an unsigned 16-bit integer: its underlying value is below 65536 and the type has
  exactly 65536 values, so a process has at most that many distinct identifiers.
\<close>

theorem identifier_width:
  "unat (underlyingId i) < 65536
   \<and> card (UNIV :: TypeIdentifier set) = 65536
   \<and> unat (underlyingId uninitialized) = 11"
proof -
  have "unat (underlyingId i) < 2 ^ LENGTH(16)"
    by (rule unsigned_less)
  then show ?thesis
    by (simp add: card_TypeIdentifier uninitialized_def)
qed

subsection \<open>Identity of handles\<close>

text \<open>
  Claim C1. Repeated calls of \<^verbatim>\<open>Make<T>()\<close> give equal handles, which point to the one
  record of \<open>T\<close> (so \<^verbatim>\<open>Make<T>().Match<T>()\<close> holds); the handles of two distinct
  registered types are unequal; and equality of handles is exactly identity of the
  record pointers.
\<close>

theorem Make_identity:
  "TypeMeta_eq (Make T) (Make T)
   \<and> Match (Make T) T
   \<and> data_ptr (Make T) = addr_Registry_data T
   \<and> (registered unique_long T1 \<and> registered unique_long T2 \<and> T1 \<noteq> T2
        \<longrightarrow> \<not> TypeMeta_eq (Make T1) (Make T2) \<and> TypeMeta_neq (Make T1) (Make T2)
            \<and> \<not> Match (Make T1) T2)
   \<and> (TypeMeta_eq a b \<longleftrightarrow> data_ptr a = data_ptr b)
   \<and> (TypeMeta_neq a b \<longleftrightarrow> data_ptr a \<noteq> data_ptr b)"
  by (simp add: TypeMeta_eq_def TypeMeta_neq_def Match_def Make_def)

theorem Make_identity_witness:
  "registered False T_float \<and> registered False (Known ''Blob'') \<and> T_float \<noteq> Known ''Blob''
   \<and> \<not> TypeMeta_eq (Make T_float) (Make (Known ''Blob''))
   \<and> TypeMeta_neq (Make T_float) (Make (Known ''Blob''))
   \<and> \<not> Match (Make T_float) (Known ''Blob'')"
  using Make_identity [of T_float False T_float "Known ''Blob''" "Make T_float" "Make T_float"]
  by simp

text \<open>
  Claim C3. A default-constructed handle has item size 0, null construct, copy and
  destroy pointers, the identifier \<open>uninitialized\<close> (11), the name
  \<^verbatim>\<open>nullptr (uninitialized)\<close>, and is unequal to \<^verbatim>\<open>Make<T>()\<close> for every type, whatever the
  static records hold.
\<close>

theorem default_handle:
  "TypeMeta_itemsize reg TypeMeta_default = 0
   \<and> TypeMeta_ctor reg TypeMeta_default = None
   \<and> TypeMeta_copy reg TypeMeta_default = None
   \<and> TypeMeta_dtor reg TypeMeta_default = None
   \<and> TypeMeta_id reg TypeMeta_default = uninitialized
   \<and> unat (underlyingId (TypeMeta_id reg TypeMeta_default)) = 11
   \<and> TypeMeta_name reg TypeMeta_default = ''nullptr (uninitialized)''
   \<and> \<not> TypeMeta_eq TypeMeta_default (Make T)
   \<and> \<not> TypeMeta_eq (Make T) TypeMeta_default
   \<and> TypeMeta_neq TypeMeta_default (Make T)
   \<and> \<not> Match TypeMeta_default T"
  by (simp add: TypeMeta_itemsize_def TypeMeta_ctor_def TypeMeta_copy_def TypeMeta_dtor_def
      TypeMeta_id_def TypeMeta_name_def TypeMeta_default_def uninitialized_data_def
      uninitialized_def TypeMeta_eq_def TypeMeta_neq_def Match_def Make_def)

subsection \<open>Ordering\<close>

text \<open>
  Claim C8, as amended. The ordering is exposed by the identifier type, not by the
  handle type (\<^verbatim>\<open>TypeMeta\<close> declares \<^verbatim>\<open>operator==\<close> and \<^verbatim>\<open>operator!=\<close> only, so handles
  are ordered through \<^verbatim>\<open>id()\<close>). \<^verbatim>\<open>operator<\<close> on identifiers holds exactly when the
  underlying integer of the left one is less than that of the right one, and it is a
  strict weak ordering: irreflexive, asymmetric, transitive, with a transitive
  incomparability, which here is equality.
\<close>

theorem TypeIdentifier_less_strict_weak_order:
  "(TypeIdentifier_less a b \<longleftrightarrow> unat (underlyingId a) < unat (underlyingId b))
   \<and> \<not> TypeIdentifier_less a a
   \<and> (TypeIdentifier_less a b \<longrightarrow> \<not> TypeIdentifier_less b a)
   \<and> (TypeIdentifier_less a b \<and> TypeIdentifier_less b c \<longrightarrow> TypeIdentifier_less a c)
   \<and> ((\<not> TypeIdentifier_less a b \<and> \<not> TypeIdentifier_less b a)
        \<and> (\<not> TypeIdentifier_less b c \<and> \<not> TypeIdentifier_less c b)
        \<longrightarrow> (\<not> TypeIdentifier_less a c \<and> \<not> TypeIdentifier_less c a))
   \<and> ((\<not> TypeIdentifier_less a b \<and> \<not> TypeIdentifier_less b a) \<longleftrightarrow> a = b)"
proof -
  have num: "TypeIdentifier_less a b \<longleftrightarrow> unat (underlyingId a) < unat (underlyingId b)"
    by (simp add: TypeIdentifier_less_def word_less_nat_alt)
  have sel: "underlyingId a = underlyingId b \<longleftrightarrow> a = b"
    by (cases a, cases b) simp
  have tot: "(\<not> TypeIdentifier_less a b \<and> \<not> TypeIdentifier_less b a) \<longleftrightarrow> a = b"
    unfolding TypeIdentifier_less_def sel [symmetric] by auto
  have rest: "\<not> TypeIdentifier_less a a"
    "TypeIdentifier_less a b \<longrightarrow> \<not> TypeIdentifier_less b a"
    "TypeIdentifier_less a b \<and> TypeIdentifier_less b c \<longrightarrow> TypeIdentifier_less a c"
    "(\<not> TypeIdentifier_less a b \<and> \<not> TypeIdentifier_less b a)
        \<and> (\<not> TypeIdentifier_less b c \<and> \<not> TypeIdentifier_less c b)
        \<longrightarrow> (\<not> TypeIdentifier_less a c \<and> \<not> TypeIdentifier_less c a)"
    unfolding TypeIdentifier_less_def by auto
  show ?thesis
    using num tot rest by blast
qed

theorem TypeIdentifier_less_strict_weak_order_witness:
  "TypeIdentifier_less (TypeIdentifier 3) (TypeIdentifier 11)
   \<and> TypeIdentifier_less (TypeIdentifier 11) (TypeIdentifier 27)
   \<and> TypeIdentifier_less (TypeIdentifier 3) (TypeIdentifier 27)
   \<and> \<not> TypeIdentifier_less (TypeIdentifier 11) (TypeIdentifier 3)"
  using TypeIdentifier_less_strict_weak_order [of "TypeIdentifier 3" "TypeIdentifier 11" "TypeIdentifier 27"]
  by (simp add: TypeIdentifier_less_def)

text \<open>
  No relational operator of the handle type compares two handles by the identifier
  ordering of their identifiers, whatever the static records hold.
\<close>

lemma TypeMeta_operator_not_identifier_order:
  "\<not> (\<exists>ope R. TypeMeta_operator ope = Some R
        \<and> (\<forall>a b. R a b \<longleftrightarrow> TypeIdentifier_less (TypeMeta_id reg a) (TypeMeta_id reg b)))"
proof
  assume "\<exists>ope R. TypeMeta_operator ope = Some R
        \<and> (\<forall>a b. R a b \<longleftrightarrow> TypeIdentifier_less (TypeMeta_id reg a) (TypeMeta_id reg b))"
  then obtain ope R where ope: "TypeMeta_operator ope = Some R"
    and R: "\<And>a b. R a b \<longleftrightarrow> TypeIdentifier_less (TypeMeta_id reg a) (TypeMeta_id reg b)"
    by blast
  show False
  proof (cases ope)
    case op_equal
    with ope have "R = TypeMeta_eq" by simp
    with R [of TypeMeta_default TypeMeta_default] show False
      by (simp add: TypeMeta_eq_def TypeIdentifier_less_def)
  next
    case op_not_equal
    with ope have "R = TypeMeta_neq" by simp
    with R [of TypeMeta_default "Make T_uint8"] R [of "Make T_uint8" TypeMeta_default]
    show False
      by (auto simp: TypeMeta_neq_def TypeMeta_eq_def TypeMeta_default_def Make_def
          TypeIdentifier_less_def)
  qed (use ope in simp_all)
qed

text \<open>
  Claim C8 as stated fails: the handle type exposes no ordering. An expression that
  applies \<^verbatim>\<open><\<close>, \<^verbatim>\<open>>\<close>, \<^verbatim>\<open><=\<close> or \<^verbatim>\<open>>=\<close> to two handles resolves to no function, and
  the two operators that exist do not delegate to the identifier ordering: \<^verbatim>\<open>uint8_t\<close>
  has identifier 0 and \<^verbatim>\<open>int8_t\<close> has 1, \<^verbatim>\<open>operator==\<close> holds of \<^verbatim>\<open>Make<uint8_t>()\<close> and
  itself although 0 is not below 0, and \<^verbatim>\<open>operator!=\<close> holds of \<^verbatim>\<open>Make<int8_t>()\<close> and
  \<^verbatim>\<open>Make<uint8_t>()\<close> although 1 is not below 0.
\<close>

theorem handle_ordering_counterexample:
  "TypeMeta_operator op_less = None
   \<and> TypeMeta_operator op_greater = None
   \<and> TypeMeta_operator op_less_equal = None
   \<and> TypeMeta_operator op_greater_equal = None
   \<and> TypeMeta_operator op_equal = Some TypeMeta_eq
   \<and> TypeMeta_operator op_not_equal = Some TypeMeta_neq
   \<and> Get False T_uint8 initial_ids = Inr (TypeIdentifier 0, initial_ids)
   \<and> Get False T_int8 initial_ids = Inr (TypeIdentifier 1, initial_ids)
   \<and> TypeMeta_eq (Make T_uint8) (Make T_uint8)
   \<and> \<not> TypeIdentifier_less (TypeIdentifier 0) (TypeIdentifier 0)
   \<and> TypeMeta_neq (Make T_int8) (Make T_uint8)
   \<and> \<not> TypeIdentifier_less (TypeIdentifier 1) (TypeIdentifier 0)"
  by (simp add: Get_preallocated TypeMeta_eq_def TypeMeta_neq_def Make_def
      TypeIdentifier_less_def)

subsection \<open>The two builder paths\<close>

lemma TypeMetaDataRegistry_data_fields:
  assumes "TypeMetaDataRegistry_data unique_long tr T s = Inr (d, s')"
  shows "Get unique_long T s = Inr (data_id d, s')"
    and "data_itemsize d = sizeof tr"
    and "data_ctor d = (if is_fundamental tr \<or> is_pointer tr then None else Some (PickCtor tr))"
    and "data_copy d = (if is_fundamental tr \<or> is_pointer tr then None else Some (PickCopy tr))"
    and "data_dtor d = (if is_fundamental tr \<or> is_pointer tr then None else Some Dtor)"
    and "data_name d = TypeName T"
proof -
  show "Get unique_long T s = Inr (data_id d, s')"
  proof (cases "Get unique_long T s")
    case (Inl e)
    with assms show ?thesis by (simp add: TypeMetaDataRegistry_data_def)
  next
    case (Inr r)
    obtain i s'' where r: "r = (i, s'')" by (cases r)
    from assms Inr r have "s'' = s'" and "data_id d = i"
      by (auto simp: TypeMetaDataRegistry_data_def split: if_splits)
    with Inr r show ?thesis by simp
  qed
  then have d: "d = (if is_fundamental tr \<or> is_pointer tr
               then \<lparr>data_itemsize = sizeof tr, data_ctor = None, data_copy = None,
                     data_dtor = None, data_id = data_id d, data_name = TypeName T\<rparr>
               else \<lparr>data_itemsize = sizeof tr, data_ctor = Some (PickCtor tr),
                     data_copy = Some (PickCopy tr), data_dtor = Some Dtor,
                     data_id = data_id d, data_name = TypeName T\<rparr>)"
    using assms unfolding TypeMetaDataRegistry_data_def by simp
  show "data_itemsize d = sizeof tr"
    by (subst d) simp
  show "data_ctor d = (if is_fundamental tr \<or> is_pointer tr then None else Some (PickCtor tr))"
    by (subst d) simp
  show "data_copy d = (if is_fundamental tr \<or> is_pointer tr then None else Some (PickCopy tr))"
    by (subst d) simp
  show "data_dtor d = (if is_fundamental tr \<or> is_pointer tr then None else Some Dtor)"
    by (subst d) simp
  show "data_name d = TypeName T"
    by (subst d) simp
qed

lemma TypeMetaDataRegistry_data_not_logic_error:
  "TypeMetaDataRegistry_data unique_long tr T s \<noteq> Inl (RuntimeTypeLogicError msg)"
proof (cases "Get unique_long T s")
  case (Inl e)
  with Get_not_logic_error [of unique_long T s msg] show ?thesis
    by (simp add: TypeMetaDataRegistry_data_def)
next
  case (Inr r)
  then show ?thesis
    by (cases r) (simp add: TypeMetaDataRegistry_data_def)
qed

lemma unique_ptr_mutex_data:
  "TypeMetaDataRegistry_data False unique_ptr_mutex_traits T_unique_ptr_mutex initial_ids =
     Inr (\<lparr>data_itemsize = 8, data_ctor = Some (PickCtor unique_ptr_mutex_traits),
           data_copy = Some (PickCopy unique_ptr_mutex_traits), data_dtor = Some Dtor,
           data_id = TypeIdentifier 17, data_name = ''std::unique_ptr<std::mutex>''\<rparr>,
          initial_ids)"
  by (simp add: TypeMetaDataRegistry_data_def Get_def unique_ptr_mutex_traits_def)

text \<open>
  Claim C7. The initialisation of the record of a registered type succeeds while the
  allocator is not exhausted. For a fundamental or pointer type the record read through
  \<^verbatim>\<open>Make<T>()\<close> has null construct, copy and destroy pointers; for every other type it
  has the three functions \<^verbatim>\<open>_PickCtor<T>()\<close>, \<^verbatim>\<open>_PickCopy<T>()\<close> and \<^verbatim>\<open>_Dtor<T>\<close>; in
  both cases its item size is \<^verbatim>\<open>sizeof(T)\<close>.
\<close>

theorem builder_paths:
  assumes "registered unique_long T" and "counter (ids p) < 2 ^ 16"
  shows "\<exists>p'. initialize_data unique_long tr T p = Inr p'
     \<and> TypeMeta_itemsize (registry p') (Make T) = sizeof tr
     \<and> (if is_fundamental tr \<or> is_pointer tr
        then TypeMeta_ctor (registry p') (Make T) = None
           \<and> TypeMeta_copy (registry p') (Make T) = None
           \<and> TypeMeta_dtor (registry p') (Make T) = None
        else TypeMeta_ctor (registry p') (Make T) = Some (PickCtor tr)
           \<and> TypeMeta_copy (registry p') (Make T) = Some (PickCopy tr)
           \<and> TypeMeta_dtor (registry p') (Make T) = Some Dtor)"
proof -
  from assms obtain i s' where "Get unique_long T (ids p) = Inr (i, s')"
    using Get_returns by blast
  then show ?thesis
    by (simp add: initialize_data_def TypeMetaDataRegistry_data_def TypeMeta_itemsize_def
        TypeMeta_ctor_def TypeMeta_copy_def TypeMeta_dtor_def Make_def)
qed

theorem builder_paths_witness:
  "registered False T_int \<and> registered False T_unique_ptr_mutex
   \<and> counter (ids program_start) < 2 ^ 16
   \<and> \<not> isl (initialize_data False int_traits T_int program_start)
   \<and> TypeMeta_itemsize
        (registry (projr (initialize_data False int_traits T_int program_start)))
        (Make T_int) = 4
   \<and> TypeMeta_ctor
        (registry (projr (initialize_data False int_traits T_int program_start)))
        (Make T_int) = None
   \<and> TypeMeta_itemsize
        (registry (projr (initialize_data False unique_ptr_mutex_traits T_unique_ptr_mutex
           program_start)))
        (Make T_unique_ptr_mutex) = 8
   \<and> TypeMeta_dtor
        (registry (projr (initialize_data False unique_ptr_mutex_traits T_unique_ptr_mutex
           program_start)))
        (Make T_unique_ptr_mutex) = Some Dtor"
proof -
  have hyps: "registered False T_int" "registered False T_unique_ptr_mutex"
    "counter (ids program_start) < 2 ^ 16"
    by (simp_all add: program_start_def initial_ids_def initial_counter_def)
  from builder_paths [OF hyps(1) hyps(3), of int_traits]
  obtain p1 where p1: "initialize_data False int_traits T_int program_start = Inr p1"
    and "TypeMeta_itemsize (registry p1) (Make T_int) = sizeof int_traits"
    and "if is_fundamental int_traits \<or> is_pointer int_traits
         then TypeMeta_ctor (registry p1) (Make T_int) = None
            \<and> TypeMeta_copy (registry p1) (Make T_int) = None
            \<and> TypeMeta_dtor (registry p1) (Make T_int) = None
         else TypeMeta_ctor (registry p1) (Make T_int) = Some (PickCtor int_traits)
            \<and> TypeMeta_copy (registry p1) (Make T_int) = Some (PickCopy int_traits)
            \<and> TypeMeta_dtor (registry p1) (Make T_int) = Some Dtor"
    by blast
  then have one: "TypeMeta_itemsize (registry p1) (Make T_int) = 4"
    "TypeMeta_ctor (registry p1) (Make T_int) = None"
    by (simp_all add: int_traits_def)
  from builder_paths [OF hyps(2) hyps(3), of unique_ptr_mutex_traits]
  obtain p2 where p2: "initialize_data False unique_ptr_mutex_traits T_unique_ptr_mutex
        program_start = Inr p2"
    and "TypeMeta_itemsize (registry p2) (Make T_unique_ptr_mutex) = sizeof unique_ptr_mutex_traits"
    and "if is_fundamental unique_ptr_mutex_traits \<or> is_pointer unique_ptr_mutex_traits
         then TypeMeta_ctor (registry p2) (Make T_unique_ptr_mutex) = None
            \<and> TypeMeta_copy (registry p2) (Make T_unique_ptr_mutex) = None
            \<and> TypeMeta_dtor (registry p2) (Make T_unique_ptr_mutex) = None
         else TypeMeta_ctor (registry p2) (Make T_unique_ptr_mutex)
                = Some (PickCtor unique_ptr_mutex_traits)
            \<and> TypeMeta_copy (registry p2) (Make T_unique_ptr_mutex)
                = Some (PickCopy unique_ptr_mutex_traits)
            \<and> TypeMeta_dtor (registry p2) (Make T_unique_ptr_mutex) = Some Dtor"
    by blast
  then have two: "TypeMeta_itemsize (registry p2) (Make T_unique_ptr_mutex) = 8"
    "TypeMeta_dtor (registry p2) (Make T_unique_ptr_mutex) = Some Dtor"
    by (simp_all add: unique_ptr_mutex_traits_def)
  from hyps one two show ?thesis
    by (simp add: p1 p2)
qed

subsection \<open>Illegal operations\<close>

lemma PickCtor_raises:
  "(PickCtor tr m ptr n = Inl e) \<longleftrightarrow>
      (\<not> is_default_constructible tr
       \<and> e = RuntimeTypeLogicError (''Type '' @ demangle_type tr @ '' is not default-constructible.''))"
  by (auto simp: PickCtor_def Ctor_def CtorNotDefault_def ThrowRuntimeTypeLogicError_def
      is_default_constructible_def split: option.splits)

lemma PickCopy_raises:
  "(PickCopy tr m src dst n = Inl e) \<longleftrightarrow>
      (\<not> is_copy_assignable tr
       \<and> e = RuntimeTypeLogicError (''Type '' @ demangle_type tr @ '' does not allow assignment.''))"
  by (auto simp: PickCopy_def Copy_def CopyNotAllowed_def ThrowRuntimeTypeLogicError_def)

text \<open>
  Claim C4, as amended. Building a record never raises the illegal-operation failure. Of
  the functions of a built record, the construct function raises it exactly when the
  type is not default-constructible and the copy function exactly when the type is not
  copy-assignable, in both cases only when called; the message is made of the name
  \<^verbatim>\<open>at::demangle_type<T>()\<close> gives the type, which need not be the display name of the record,
  and of the unsupported operation. The destroy function never raises it, and the
  accessors of a handle of the record return its members, the stand-in functions
  included, without calling them.
\<close>

theorem illegal_operation_only_on_invocation:
  "TypeMetaDataRegistry_data unique_long tr T s \<noteq> Inl (RuntimeTypeLogicError msg)
   \<and> (TypeMetaDataRegistry_data unique_long tr T s = Inr (d, s') \<longrightarrow>
        (\<forall>f. data_ctor d = Some f \<longrightarrow>
           (f m ptr n = Inl e \<longleftrightarrow>
              \<not> is_default_constructible tr
              \<and> e = RuntimeTypeLogicError
                    (''Type '' @ demangle_type tr @ '' is not default-constructible.'')))
      \<and> (\<forall>g. data_copy d = Some g \<longrightarrow>
           (g m src dst n = Inl e \<longleftrightarrow>
              \<not> is_copy_assignable tr
              \<and> e = RuntimeTypeLogicError
                    (''Type '' @ demangle_type tr @ '' does not allow assignment.'')))
      \<and> (\<forall>h. data_dtor d = Some h \<longrightarrow> h m ptr n \<noteq> Inl e)
      \<and> (reg T = d \<longrightarrow>
            TypeMeta_id reg (Make T) = data_id d
          \<and> Get unique_long T s = Inr (TypeMeta_id reg (Make T), s')
          \<and> TypeMeta_itemsize reg (Make T) = sizeof tr
          \<and> TypeMeta_name reg (Make T) = TypeName T
          \<and> TypeMeta_ctor reg (Make T) = data_ctor d
          \<and> TypeMeta_copy reg (Make T) = data_copy d
          \<and> TypeMeta_dtor reg (Make T) = data_dtor d))"
proof (intro conjI impI allI)
  show "TypeMetaDataRegistry_data unique_long tr T s \<noteq> Inl (RuntimeTypeLogicError msg)"
    by (rule TypeMetaDataRegistry_data_not_logic_error)
next
  fix f
  assume "TypeMetaDataRegistry_data unique_long tr T s = Inr (d, s')" and "data_ctor d = Some f"
  then have "f = PickCtor tr"
    by (simp add: TypeMetaDataRegistry_data_fields(3) split: if_splits)
  then show "f m ptr n = Inl e \<longleftrightarrow>
      \<not> is_default_constructible tr
      \<and> e = RuntimeTypeLogicError (''Type '' @ demangle_type tr @ '' is not default-constructible.'')"
    by (simp only: PickCtor_raises)
next
  fix g
  assume "TypeMetaDataRegistry_data unique_long tr T s = Inr (d, s')" and "data_copy d = Some g"
  then have "g = PickCopy tr"
    by (simp add: TypeMetaDataRegistry_data_fields(4) split: if_splits)
  then show "g m src dst n = Inl e \<longleftrightarrow>
      \<not> is_copy_assignable tr
      \<and> e = RuntimeTypeLogicError (''Type '' @ demangle_type tr @ '' does not allow assignment.'')"
    by (simp only: PickCopy_raises)
next
  fix h
  assume "TypeMetaDataRegistry_data unique_long tr T s = Inr (d, s')" and "data_dtor d = Some h"
  then have "h = Dtor"
    by (simp add: TypeMetaDataRegistry_data_fields(5) split: if_splits)
  then show "h m ptr n \<noteq> Inl e"
    by (simp add: Dtor_def)
next
  assume build: "TypeMetaDataRegistry_data unique_long tr T s = Inr (d, s')" and reg: "reg T = d"
  from reg show "TypeMeta_id reg (Make T) = data_id d"
    by (simp add: TypeMeta_id_def Make_def)
  with TypeMetaDataRegistry_data_fields(1) [OF build]
  show "Get unique_long T s = Inr (TypeMeta_id reg (Make T), s')"
    by simp
  from reg TypeMetaDataRegistry_data_fields(2) [OF build]
  show "TypeMeta_itemsize reg (Make T) = sizeof tr"
    by (simp add: TypeMeta_itemsize_def Make_def)
  from reg TypeMetaDataRegistry_data_fields(6) [OF build]
  show "TypeMeta_name reg (Make T) = TypeName T"
    by (simp add: TypeMeta_name_def Make_def)
  from reg show "TypeMeta_ctor reg (Make T) = data_ctor d"
    by (simp add: TypeMeta_ctor_def Make_def)
  from reg show "TypeMeta_copy reg (Make T) = data_copy d"
    by (simp add: TypeMeta_copy_def Make_def)
  from reg show "TypeMeta_dtor reg (Make T) = data_dtor d"
    by (simp add: TypeMeta_dtor_def Make_def)
qed

theorem illegal_operation_only_on_invocation_witness:
  "TypeMetaDataRegistry_data False unique_ptr_mutex_traits T_unique_ptr_mutex initial_ids =
     Inr (\<lparr>data_itemsize = 8, data_ctor = Some (PickCtor unique_ptr_mutex_traits),
           data_copy = Some (PickCopy unique_ptr_mutex_traits), data_dtor = Some Dtor,
           data_id = TypeIdentifier 17, data_name = ''std::unique_ptr<std::mutex>''\<rparr>,
          initial_ids)
   \<and> PickCopy unique_ptr_mutex_traits raw_storage 0 4 2 =
       Inl (RuntimeTypeLogicError
         ''Type std::unique_ptr<std::mutex, std::default_delete<std::mutex> > does not allow assignment.'')
   \<and> PickCtor unique_ptr_mutex_traits raw_storage 0 2 \<noteq>
       Inl (RuntimeTypeLogicError
         ''Type std::unique_ptr<std::mutex, std::default_delete<std::mutex> > is not default-constructible.'')
   \<and> Dtor (raw_storage :: int list memory) 0 2 \<noteq> Inl (RuntimeTypeLogicError [])
   \<and> TypeMeta_itemsize
        ((registry program_start)(T_unique_ptr_mutex :=
           \<lparr>data_itemsize = 8, data_ctor = Some (PickCtor unique_ptr_mutex_traits),
            data_copy = Some (PickCopy unique_ptr_mutex_traits), data_dtor = Some Dtor,
            data_id = TypeIdentifier 17, data_name = ''std::unique_ptr<std::mutex>''\<rparr>))
        (Make T_unique_ptr_mutex) = 8
   \<and> TypeMeta_copy
        ((registry program_start)(T_unique_ptr_mutex :=
           \<lparr>data_itemsize = 8, data_ctor = Some (PickCtor unique_ptr_mutex_traits),
            data_copy = Some (PickCopy unique_ptr_mutex_traits), data_dtor = Some Dtor,
            data_id = TypeIdentifier 17, data_name = ''std::unique_ptr<std::mutex>''\<rparr>))
        (Make T_unique_ptr_mutex) = Some (PickCopy unique_ptr_mutex_traits)"
proof -
  define d :: "int list TypeMetaData" where
    "d = \<lparr>data_itemsize = 8, data_ctor = Some (PickCtor unique_ptr_mutex_traits),
          data_copy = Some (PickCopy unique_ptr_mutex_traits), data_dtor = Some Dtor,
          data_id = TypeIdentifier 17, data_name = ''std::unique_ptr<std::mutex>''\<rparr>"
  define reg where "reg = (registry program_start)(T_unique_ptr_mutex := d)"
  have build: "TypeMetaDataRegistry_data False unique_ptr_mutex_traits T_unique_ptr_mutex
      initial_ids = Inr (d, initial_ids)"
    by (simp add: unique_ptr_mutex_data d_def)
  have reg: "reg T_unique_ptr_mutex = d"
    by (simp add: reg_def)
  have fields: "data_ctor d = Some (PickCtor unique_ptr_mutex_traits)"
    "data_copy d = Some (PickCopy unique_ptr_mutex_traits)"
    "data_dtor d = Some Dtor"
    by (simp_all add: d_def)
  have traits: "is_default_constructible unique_ptr_mutex_traits"
    "\<not> is_copy_assignable unique_ptr_mutex_traits"
    "sizeof unique_ptr_mutex_traits = 8"
    "demangle_type unique_ptr_mutex_traits =
       ''std::unique_ptr<std::mutex, std::default_delete<std::mutex> >''"
    by (simp_all add: unique_ptr_mutex_traits_def is_default_constructible_def)
  note main = illegal_operation_only_on_invocation
    [where unique_long = False and tr = unique_ptr_mutex_traits and T = T_unique_ptr_mutex
       and s = initial_ids and d = d and s' = initial_ids and m = raw_storage and reg = reg
       and ptr = 0 and n = 2 and src = 0 and dst = 4,
     THEN conjunct2, rule_format, OF build]
  from main [where e = "RuntimeTypeLogicError
         ''Type std::unique_ptr<std::mutex, std::default_delete<std::mutex> > is not default-constructible.''",
      THEN conjunct1, rule_format, OF fields(1)] traits(1)
  have ctor: "PickCtor unique_ptr_mutex_traits raw_storage 0 2 \<noteq>
       Inl (RuntimeTypeLogicError
         ''Type std::unique_ptr<std::mutex, std::default_delete<std::mutex> > is not default-constructible.'')"
    by simp
  from main [where e = "RuntimeTypeLogicError
         ''Type std::unique_ptr<std::mutex, std::default_delete<std::mutex> > does not allow assignment.''",
      THEN conjunct2, THEN conjunct1, rule_format, OF fields(2)] traits(2,4)
  have copy: "PickCopy unique_ptr_mutex_traits raw_storage 0 4 2 =
       Inl (RuntimeTypeLogicError
         ''Type std::unique_ptr<std::mutex, std::default_delete<std::mutex> > does not allow assignment.'')"
    by simp
  have dtor: "Dtor (raw_storage :: int list memory) 0 2 \<noteq> Inl (RuntimeTypeLogicError [])"
    by (rule main [where e = "RuntimeTypeLogicError []",
          THEN conjunct2, THEN conjunct2, THEN conjunct1, rule_format, OF fields(3)])
  note accessors = main [where e = "RuntimeTypeLogicError []",
      THEN conjunct2, THEN conjunct2, THEN conjunct2, rule_format, OF reg]
  from accessors traits(3) have size: "TypeMeta_itemsize reg (Make T_unique_ptr_mutex) = 8"
    by simp
  from accessors fields(2)
  have get_copy: "TypeMeta_copy reg (Make T_unique_ptr_mutex) = Some (PickCopy unique_ptr_mutex_traits)"
    by simp
  note acc = size get_copy
  from build ctor copy dtor acc show ?thesis
    unfolding reg_def d_def by blast
qed

lemma demangled_name_differs:
  "\<not> sublist ''std::unique_ptr<std::mutex>''
      ''Type std::unique_ptr<std::mutex, std::default_delete<std::mutex> > does not allow assignment.''"
  by code_simp

text \<open>
  Claim C4 as stated fails in the name the message carries. The record of
  \<^verbatim>\<open>std::unique_ptr<std::mutex>\<close> has that spelling as its display name; its copy function
  raises with the demangled name of the type in the message, and the display name does
  not occur in that message.
\<close>

theorem failure_message_display_name_counterexample:
  "data_name (fst (projr (TypeMetaDataRegistry_data False unique_ptr_mutex_traits
       T_unique_ptr_mutex initial_ids))) = ''std::unique_ptr<std::mutex>''
   \<and> data_copy (fst (projr (TypeMetaDataRegistry_data False unique_ptr_mutex_traits
       T_unique_ptr_mutex initial_ids))) = Some (PickCopy unique_ptr_mutex_traits)
   \<and> PickCopy unique_ptr_mutex_traits raw_storage 0 4 2 =
       Inl (RuntimeTypeLogicError
         ''Type std::unique_ptr<std::mutex, std::default_delete<std::mutex> > does not allow assignment.'')
   \<and> \<not> sublist ''std::unique_ptr<std::mutex>''
         ''Type std::unique_ptr<std::mutex, std::default_delete<std::mutex> > does not allow assignment.''"
proof -
  have "PickCopy unique_ptr_mutex_traits raw_storage 0 4 2 =
       Inl (RuntimeTypeLogicError
         ''Type std::unique_ptr<std::mutex, std::default_delete<std::mutex> > does not allow assignment.'')"
    by (simp add: PickCopy_def CopyNotAllowed_def ThrowRuntimeTypeLogicError_def
        unique_ptr_mutex_traits_def)
  with demangled_name_differs show ?thesis
    by (simp add: unique_ptr_mutex_data)
qed

subsection \<open>Construction of elements\<close>

lemma Ctor_loop_eq:
  "Ctor_loop dc p n i m =
     (\<lambda>a. if p + i \<le> a \<and> a < p + n then default_initialize dc else m a)"
proof (induction dc p n i m rule: Ctor_loop.induct)
  case (1 dc p n i m)
  show ?case
  proof (cases "i < n")
    case True
    then have "Ctor_loop dc p n i m =
        Ctor_loop dc p n (Suc i) (m(p + i := default_initialize dc))"
      by (subst Ctor_loop.simps) simp
    also have "\<dots> = (\<lambda>a. if p + Suc i \<le> a \<and> a < p + n then default_initialize dc
                          else (m(p + i := default_initialize dc)) a)"
      by (rule 1 [OF True])
    also have "\<dots> = (\<lambda>a. if p + i \<le> a \<and> a < p + n then default_initialize dc else m a)"
      using True by (auto simp: fun_eq_iff)
    finally show ?thesis .
  next
    case False
    then show ?thesis
      by (subst Ctor_loop.simps) (auto simp: fun_eq_iff)
  qed
qed

text \<open>
  Claim C5, as amended. For a registered, default-constructible type that is neither
  fundamental nor a pointer, the construct function of the record, called with a storage
  pointer and a count \<open>n\<close>, default-initialises the \<open>n\<close> elements from the pointer on and
  leaves the rest of the storage as it was; with \<open>n = 0\<close> nothing changes. This is
  value-initialisation when the default constructor of the type is user-provided.
\<close>

theorem ctor_default_initializes:
  assumes "registered unique_long T" and "counter s < 2 ^ 16"
    and "default_ctor tr = Some dc" and "\<not> is_fundamental tr" and "\<not> is_pointer tr"
  shows "\<exists>d s' f. TypeMetaDataRegistry_data unique_long tr T s = Inr (d, s')
     \<and> data_ctor d = Some f
     \<and> f m ptr n =
         Inr (\<lambda>a. if ptr \<le> a \<and> a < ptr + n then default_initialize dc else m a)
     \<and> f m ptr 0 = Inr m
     \<and> (\<forall>v. dc = UserCtor v \<longrightarrow>
          f m ptr n =
            Inr (\<lambda>a. if ptr \<le> a \<and> a < ptr + n
                     then value_initialize (zero_value tr) dc else m a))"
proof -
  from assms(1,2) obtain i s' where get: "Get unique_long T s = Inr (i, s')"
    using Get_returns by blast
  define d :: "'a TypeMetaData" where
    "d = \<lparr>data_itemsize = sizeof tr, data_ctor = Some (PickCtor tr),
          data_copy = Some (PickCopy tr), data_dtor = Some Dtor,
          data_id = i, data_name = TypeName T\<rparr>"
  have build: "TypeMetaDataRegistry_data unique_long tr T s = Inr (d, s')"
    using get assms(4,5) by (simp add: TypeMetaDataRegistry_data_def d_def)
  have ctor: "data_ctor d = Some (PickCtor tr)"
    by (simp add: d_def)
  have run: "PickCtor tr m ptr k =
      Inr (\<lambda>a. if ptr \<le> a \<and> a < ptr + k then default_initialize dc else m a)" for k
    using assms(3) by (simp add: PickCtor_def Ctor_def Ctor_loop_eq)
  have zero: "PickCtor tr m ptr 0 = Inr m"
    by (auto simp: run fun_eq_iff)
  have val: "PickCtor tr m ptr n =
      Inr (\<lambda>a. if ptr \<le> a \<and> a < ptr + n then value_initialize (zero_value tr) dc else m a)"
    if "dc = UserCtor v" for v
    using that by (auto simp: run fun_eq_iff)
  from build ctor run zero val show ?thesis by blast
qed

theorem ctor_default_initializes_witness:
  "registered False T_unique_ptr_mutex \<and> counter initial_ids < 2 ^ 16
   \<and> default_ctor unique_ptr_mutex_traits = Some (UserCtor [0])
   \<and> \<not> is_fundamental unique_ptr_mutex_traits \<and> \<not> is_pointer unique_ptr_mutex_traits
   \<and> TypeMetaDataRegistry_data False unique_ptr_mutex_traits T_unique_ptr_mutex initial_ids =
       Inr (\<lparr>data_itemsize = 8, data_ctor = Some (PickCtor unique_ptr_mutex_traits),
             data_copy = Some (PickCopy unique_ptr_mutex_traits), data_dtor = Some Dtor,
             data_id = TypeIdentifier 17, data_name = ''std::unique_ptr<std::mutex>''\<rparr>,
            initial_ids)
   \<and> PickCtor unique_ptr_mutex_traits raw_storage 5 2 =
       Inr (raw_storage(5 := Value [0], 6 := Value [0]))"
proof -
  have hyps: "registered False T_unique_ptr_mutex" "counter initial_ids < 2 ^ 16"
    "default_ctor unique_ptr_mutex_traits = Some (UserCtor [0])"
    "\<not> is_fundamental unique_ptr_mutex_traits" "\<not> is_pointer unique_ptr_mutex_traits"
    by (simp_all add: initial_ids_def initial_counter_def unique_ptr_mutex_traits_def)
  from ctor_default_initializes [OF hyps, of raw_storage 5 2]
  obtain d s' f where
    build: "TypeMetaDataRegistry_data False unique_ptr_mutex_traits T_unique_ptr_mutex initial_ids
              = Inr (d, s')"
    and f: "data_ctor d = Some f"
    and run: "f raw_storage 5 2 =
       Inr (\<lambda>a. if 5 \<le> a \<and> a < 5 + 2 then default_initialize (UserCtor [0]) else raw_storage a)"
    by blast
  have "\<not> (is_fundamental unique_ptr_mutex_traits \<or> is_pointer unique_ptr_mutex_traits)"
    using hyps by simp
  with TypeMetaDataRegistry_data_fields(3) [OF build] f
  have "f = PickCtor unique_ptr_mutex_traits"
    by simp
  with run have eq: "PickCtor unique_ptr_mutex_traits raw_storage 5 2 =
      Inr (raw_storage(5 := Value [0], 6 := Value [0]))"
    by (auto simp: fun_eq_iff)
  from hyps unique_ptr_mutex_data eq show ?thesis
    by blast
qed

text \<open>
  Claim C5 as stated fails for a type with a trivial default constructor. \<open>Point\<close> is
  default-constructible, not fundamental and not a pointer; the construct function of
  its record, called on one element, leaves the element's value indeterminate, while
  value-initialisation would give it the value with both members zero.
\<close>

theorem ctor_value_initializes_counterexample:
  "is_default_constructible Point_traits
   \<and> \<not> is_fundamental Point_traits \<and> \<not> is_pointer Point_traits
   \<and> data_ctor (fst (projr (TypeMetaDataRegistry_data False Point_traits (Known ''Point'')
        initial_ids))) = Some (PickCtor Point_traits)
   \<and> PickCtor Point_traits raw_storage 0 1 = Inr (raw_storage(0 := Indeterminate))
   \<and> value_initialize (zero_value Point_traits) TrivialCtor = Value [0, 0]
   \<and> (raw_storage(0 := Indeterminate)) 0 \<noteq> value_initialize (zero_value Point_traits) TrivialCtor"
proof -
  have "Ctor_loop TrivialCtor 0 1 0 raw_storage = (raw_storage(0 := Indeterminate) :: int list memory)"
    by (auto simp: Ctor_loop_eq fun_eq_iff)
  then have "PickCtor Point_traits raw_storage 0 1 = Inr (raw_storage(0 := Indeterminate))"
    by (simp add: PickCtor_def Point_traits_def Ctor_def)
  moreover have "data_ctor (fst (projr (TypeMetaDataRegistry_data False Point_traits
      (Known ''Point'') initial_ids))) = Some (PickCtor Point_traits)"
    by (simp add: TypeMetaDataRegistry_data_def Get_def createTypeId_def initial_ids_def
        initial_counter_def Point_traits_def)
  ultimately show ?thesis
    by (simp add: is_default_constructible_def Point_traits_def)
qed

subsection \<open>Dynamically allocated identifiers\<close>

lemma unat_of_nat_16: "c < 2 ^ 16 \<Longrightarrow> unat (of_nat c :: 16 word) = c"
  by (simp add: unat_of_nat)

lemma reachable_bounds:
  assumes "reachable unique_long s"
  shows "28 \<le> counter s"
    and "type_id s T = Some i \<Longrightarrow> 28 \<le> unat (underlyingId i) \<and> unat (underlyingId i) < counter s"
    and "type_id s T = Some i \<Longrightarrow> PreallocatedId unique_long T = None"
  using assms
proof (induction arbitrary: T i rule: reachable.induct)
  case reachable_initial
  {
    case 1
    show ?case by (simp add: initial_ids_def initial_counter_def)
  next
    case 2
    then show ?case by (simp add: initial_ids_def)
  next
    case 3
    then show ?case by (simp add: initial_ids_def)
  }
next
  case (reachable_Get s T' j s')
  note step = Get_step [OF reachable_Get.hyps(2)]
  {
    case 1
    from step reachable_Get.IH(1) show ?case by auto
  next
    case 2
    from step show ?case
    proof
      assume "s' = s \<and> (PreallocatedId unique_long T' = Some (underlyingId j) \<or> type_id s T' = Some j)"
      with 2 reachable_Get.IH(2) show ?thesis by simp
    next
      assume new: "PreallocatedId unique_long T' = None \<and> type_id s T' = None \<and> counter s < 2 ^ 16
        \<and> j = TypeIdentifier (of_nat (counter s))
        \<and> s' = s\<lparr>counter := Suc (counter s), type_id := (type_id s)(T' \<mapsto> j)\<rparr>"
      show ?thesis
      proof (cases "T = T'")
        case True
        with new 2 have "i = TypeIdentifier (of_nat (counter s))" by simp
        with new reachable_Get.IH(1) show ?thesis
          by (simp add: unat_of_nat_16)
      next
        case False
        with new 2 have "type_id s T = Some i" by simp
        with reachable_Get.IH(2) new show ?thesis by fastforce
      qed
    qed
  next
    case 3
    from step show ?case
    proof
      assume "s' = s \<and> (PreallocatedId unique_long T' = Some (underlyingId j) \<or> type_id s T' = Some j)"
      with 3 reachable_Get.IH(3) show ?thesis by simp
    next
      assume new: "PreallocatedId unique_long T' = None \<and> type_id s T' = None \<and> counter s < 2 ^ 16
        \<and> j = TypeIdentifier (of_nat (counter s))
        \<and> s' = s\<lparr>counter := Suc (counter s), type_id := (type_id s)(T' \<mapsto> j)\<rparr>"
      with 3 reachable_Get.IH(3) show ?thesis
        by (cases "T = T'") simp_all
    qed
  }
qed

lemma reachable_injective:
  assumes "reachable unique_long s"
  shows "type_id s T1 = Some i \<Longrightarrow> type_id s T2 = Some i \<Longrightarrow> T1 = T2"
  using assms
proof (induction arbitrary: T1 T2 i rule: reachable.induct)
  case reachable_initial
  then show ?case by (simp add: initial_ids_def)
next
  case (reachable_Get s T' j s')
  from Get_step [OF reachable_Get.hyps(2)] show ?case
  proof
    assume "s' = s \<and> (PreallocatedId unique_long T' = Some (underlyingId j) \<or> type_id s T' = Some j)"
    with reachable_Get.prems reachable_Get.IH show ?thesis by simp
  next
    assume new: "PreallocatedId unique_long T' = None \<and> type_id s T' = None \<and> counter s < 2 ^ 16
        \<and> j = TypeIdentifier (of_nat (counter s))
        \<and> s' = s\<lparr>counter := Suc (counter s), type_id := (type_id s)(T' \<mapsto> j)\<rparr>"
    have fresh: "type_id s T = Some k \<Longrightarrow> k \<noteq> j" for T k
    proof
      assume "type_id s T = Some k" and "k = j"
      with reachable_bounds(2) [OF reachable_Get.hyps(1), of T k] new
      show False by (simp add: unat_of_nat_16)
    qed
    show ?thesis
    proof (cases "T1 = T'")
      case True
      show ?thesis
      proof (cases "T2 = T'")
        case True
        with \<open>T1 = T'\<close> show ?thesis by simp
      next
        case False
        with True new reachable_Get.prems have "i = j" "type_id s T2 = Some i" by simp_all
        with fresh show ?thesis by blast
      qed
    next
      case False
      show ?thesis
      proof (cases "T2 = T'")
        case True
        with False new reachable_Get.prems have "i = j" "type_id s T1 = Some i" by simp_all
        with fresh show ?thesis by blast
      next
        case F2: False
        with False new reachable_Get.prems have "type_id s T1 = Some i" "type_id s T2 = Some i"
          by simp_all
        then show ?thesis by (rule reachable_Get.IH)
      qed
    qed
  qed
qed

lemma PreallocatedId_not_11: "PreallocatedId unique_long T \<noteq> Some 11"
  by (cases T) simp_all

text \<open>
  Claim C6. No reserved registration uses 11, and in every reachable allocator state no
  call of \<^verbatim>\<open>Get<T>()\<close> returns 11. The identifier a call returns for a type without a
  reserved constant is above 27, differs from every reserved constant, and is the one
  recorded for that type; two distinct types never have the same recorded identifier,
  and a recorded identifier never changes.
\<close>

theorem dynamic_ids_disjoint:
  assumes "reachable unique_long s"
  shows "(\<forall>T. PreallocatedId unique_long T \<noteq> Some 11)
     \<and> (\<forall>T i s'. Get unique_long T s = Inr (i, s') \<longrightarrow> i \<noteq> uninitialized)
     \<and> (\<forall>T i s'. PreallocatedId unique_long T = None \<and> Get unique_long T s = Inr (i, s') \<longrightarrow>
          27 < unat (underlyingId i) \<and> type_id s' T = Some i
          \<and> (\<forall>T' k. PreallocatedId unique_long T' = Some k \<longrightarrow> i \<noteq> TypeIdentifier k))
     \<and> (\<forall>T1 T2 i1 i2. T1 \<noteq> T2 \<and> type_id s T1 = Some i1 \<and> type_id s T2 = Some i2 \<longrightarrow>
          i1 \<noteq> i2)
     \<and> (\<forall>T i T' j s'. type_id s T = Some i \<and> Get unique_long T' s = Inr (j, s') \<longrightarrow>
          type_id s' T = Some i)"
proof -
  have never_11: "\<forall>T. PreallocatedId unique_long T \<noteq> Some 11"
    by (simp add: PreallocatedId_not_11)
  have not_sentinel: "i \<noteq> uninitialized" if get: "Get unique_long T s = Inr (i, s')" for T i s'
  proof
    assume i: "i = uninitialized"
    then have eleven: "unat (underlyingId i) = 11"
      by (simp add: uninitialized_def)
    from Get_step [OF get] consider
        "PreallocatedId unique_long T = Some (underlyingId i)"
      | "type_id s T = Some i"
      | "counter s < 2 ^ 16" and "i = TypeIdentifier (of_nat (counter s))"
      by blast
    then show False
    proof cases
      case 1
      with i PreallocatedId_not_11 [of unique_long T] show False
        by (simp add: uninitialized_def)
    next
      case 2
      from reachable_bounds(2) [OF assms 2] eleven show False
        by simp
    next
      case 3
      then have "unat (underlyingId i) = counter s"
        by (simp add: unat_of_nat_16)
      with eleven reachable_bounds(1) [OF assms] show False
        by simp
    qed
  qed
  have dynamic: "27 < unat (underlyingId i) \<and> type_id s' T = Some i
      \<and> (\<forall>T' k. PreallocatedId unique_long T' = Some k \<longrightarrow> i \<noteq> TypeIdentifier k)"
    if dyn: "PreallocatedId unique_long T = None" and get: "Get unique_long T s = Inr (i, s')"
    for T i s'
  proof -
    from assms get have r': "reachable unique_long s'"
      by (rule reachable_Get)
    from Get_step [OF get] dyn have rec: "type_id s' T = Some i"
      by auto
    from reachable_bounds(2) [OF r' rec] have big: "27 < unat (underlyingId i)"
      by simp
    have "i \<noteq> TypeIdentifier k" if "PreallocatedId unique_long T' = Some k" for T' k
    proof
      assume "i = TypeIdentifier k"
      with big have "27 < unat k" by simp
      moreover from that have "k \<le> 27" by (rule PreallocatedId_le_27)
      then have "unat k \<le> unat (27 :: 16 word)" by (simp add: word_le_nat_alt)
      ultimately show False by simp
    qed
    with big rec show ?thesis by blast
  qed
  have distinct: "i1 \<noteq> i2"
    if "T1 \<noteq> T2" and "type_id s T1 = Some i1" and "type_id s T2 = Some i2" for T1 T2 i1 i2
    using reachable_injective [OF assms, of T1 i1 T2] that by blast
  have stable: "type_id s' T = Some i"
    if old: "type_id s T = Some i" and get: "Get unique_long T' s = Inr (j, s')" for T i T' j s'
    using Get_step [OF get] old by (cases "T = T'") auto
  from never_11 not_sentinel dynamic distinct stable show ?thesis
    by blast
qed

lemma reachable_ids_after_A_B: "reachable False ids_after_A_B"
proof -
  have "Get False (Known ''A'') initial_ids =
      Inr (TypeIdentifier 28, \<lparr>counter = 29, type_id = [Known ''A'' \<mapsto> TypeIdentifier 28]\<rparr>)"
    by (simp add: Get_Known createTypeId_def initial_ids_def initial_counter_def)
  with reachable_initial
  have "reachable False \<lparr>counter = 29, type_id = [Known ''A'' \<mapsto> TypeIdentifier 28]\<rparr>"
    by (rule reachable_Get)
  moreover have "Get False (Known ''B'')
        \<lparr>counter = 29, type_id = [Known ''A'' \<mapsto> TypeIdentifier 28]\<rparr> =
      Inr (TypeIdentifier 29, ids_after_A_B)"
    by (simp add: Get_Known createTypeId_def ids_after_A_B_def)
  ultimately show ?thesis
    by (rule reachable_Get)
qed

theorem dynamic_ids_disjoint_witness:
  "reachable False ids_after_A_B
   \<and> PreallocatedId False (Known ''A'') = None
   \<and> Get False (Known ''A'') ids_after_A_B = Inr (TypeIdentifier 28, ids_after_A_B)
   \<and> type_id ids_after_A_B (Known ''A'') = Some (TypeIdentifier 28)
   \<and> type_id ids_after_A_B (Known ''B'') = Some (TypeIdentifier 29)
   \<and> Known ''A'' \<noteq> Known ''B''
   \<and> TypeIdentifier 28 \<noteq> TypeIdentifier 29
   \<and> TypeIdentifier 28 \<noteq> uninitialized
   \<and> 27 < unat (underlyingId (TypeIdentifier 28))
   \<and> PreallocatedId False T_CaffeHighestPreallocatedTypeId = Some 27
   \<and> TypeIdentifier 28 \<noteq> TypeIdentifier 27"
proof -
  have get: "Get False (Known ''A'') ids_after_A_B = Inr (TypeIdentifier 28, ids_after_A_B)"
    by (simp add: Get_Known ids_after_A_B_def)
  have ids: "type_id ids_after_A_B (Known ''A'') = Some (TypeIdentifier 28)"
    "type_id ids_after_A_B (Known ''B'') = Some (TypeIdentifier 29)"
    by (simp_all add: ids_after_A_B_def)
  have dyn: "PreallocatedId False (Known ''A'') = None"
    and top: "PreallocatedId False T_CaffeHighestPreallocatedTypeId = Some 27"
    and ne: "Known ''A'' \<noteq> Known ''B''"
    by simp_all
  note main = dynamic_ids_disjoint [OF reachable_ids_after_A_B]
  note sentinel = main [THEN conjunct2, THEN conjunct1, rule_format, OF get]
  note above = main [THEN conjunct2, THEN conjunct2, THEN conjunct1, rule_format,
      OF conjI [OF dyn get]]
  note differ = main [THEN conjunct2, THEN conjunct2, THEN conjunct2, THEN conjunct1, rule_format,
      OF conjI [OF ne conjI [OF ids]]]
  from above have big: "27 < unat (underlyingId (TypeIdentifier 28))"
    by (rule conjunct1)
  from above top have reserved: "TypeIdentifier 28 \<noteq> TypeIdentifier 27"
    by blast
  from reachable_ids_after_A_B dyn get ids ne differ sentinel big top reserved show ?thesis
    by blast
qed

end
